theory Spec2Isabelle
  imports Complex_Main
begin

section \<open>Numbers, points and rectangles\<close>

text \<open>
  The program is TypeScript: every coordinate, size and matrix entry is a JavaScript
  number. The embedding reads them as real numbers, so \<open>+\<close>, \<open>-\<close>, \<open>*\<close> and
  \<open>/\<close> are the exact operations and \<open>Math.sqrt\<close>, \<open>Math.acos\<close>,
  \<open>Math.atan\<close>, \<open>Math.abs\<close> and \<open>Math.PI\<close> are \<open>sqrt\<close>, \<open>arccos\<close>,
  \<open>arctan\<close>, \<open>abs\<close> and \<open>pi\<close>. Rounding, infinities and NaN of IEEE doubles are
  outside this reading.

  \<open>Vector2d\<close> and \<open>IRect\<close> are the two Konva types the source imports: a point
  \<open>{x, y}\<close> and a rectangle \<open>{x, y, width, height}\<close>.
\<close>

record Vector2d =
  x :: real
  y :: real

record IRect = Vector2d +
  width :: real
  height :: real

section \<open>Geometry utilities\<close>

subsection \<open>haveIntersection\<close>

text \<open>
  \<^verbatim>\<open>
  function haveIntersection(r1, r2): boolean {
    return !(
      r2.x > r1.x + r1.width ||
      r2.x + r2.width < r1.x ||
      r2.y > r1.y + r1.height ||
      r2.y + r2.height < r1.y
    );
  }
  \<close>
\<close>

definition haveIntersection :: "IRect \<Rightarrow> IRect \<Rightarrow> bool" where
  "haveIntersection r1 r2 =
     (\<not> (x r2 > x r1 + width r1 \<or>
         x r2 + width r2 < x r1 \<or>
         y r2 > y r1 + height r1 \<or>
         y r2 + height r2 < y r1))"

subsection \<open>reverse\<close>

text \<open>
  \<^verbatim>\<open>
  function reverse(r1, r2) {
    let r1x = r1.x; let r1y = r1.y; let r2x = r2.x; let r2y = r2.y; let d;
    if (r1x > r2x) { d = Math.abs(r1x - r2x); r1x = r2x; r2x = r1x + d; }
    if (r1y > r2y) { d = Math.abs(r1y - r2y); r1y = r2y; r2y = r1y + d; }
    return { x1: r1x, y1: r1y, x2: r2x, y2: r2y };
  }
  \<close>
  \<open>swap_axis\<close> is the body of one \<open>if\<close>: the three assignments in their order,
  returning the two variables the branch rewrites.
\<close>

record DragRect =
  x1 :: real
  y1 :: real
  x2 :: real
  y2 :: real

definition swap_axis :: "real \<Rightarrow> real \<Rightarrow> real \<times> real" where
  "swap_axis r1v r2v =
     (if r1v > r2v
      then (let d = \<bar>r1v - r2v\<bar>; r1v' = r2v; r2v' = r1v' + d in (r1v', r2v'))
      else (r1v, r2v))"

definition reverse :: "Vector2d \<Rightarrow> Vector2d \<Rightarrow> DragRect" where
  "reverse r1 r2 =
     (let (r1x, r2x) = swap_axis (x r1) (x r2);
          (r1y, r2y) = swap_axis (y r1) (y r2)
      in \<lparr>x1 = r1x, y1 = r1y, x2 = r2x, y2 = r2y\<rparr>)"

subsection \<open>decompose\<close>

text \<open>
  \<open>mat\<close> is the array \<open>[a, b, c, d, e, f]\<close> that \<open>getAbsoluteTransform().getMatrix()\<close>
  returns, read at the indices 0 to 5. Of the layer the function reads only
  \<open>getAbsolutePosition()\<close> and \<open>getAbsoluteScale()\<close>.
  \<^verbatim>\<open>
  function decompose(mat, layer) {
    var a = mat[0]; ... var f = mat[5];
    var delta = a * d - b * c;
    const position = layer.getAbsolutePosition();
    const scale = layer.getAbsoluteScale();
    let result = { x: (e - position.x) / scale.x, y: (f - position.y) / scale.y,
                   rotation: 0, scaleX: 0, scaleY: 0, skewX: 0, skewY: 0 };
    if (a != 0 || b != 0) {
      var r = Math.sqrt(a * a + b * b);
      result.rotation = b > 0 ? Math.acos(a / r) : -Math.acos(a / r);
      result.scaleX = r / scale.x;
      result.scaleY = delta / r / scale.y;
      result.skewX = Math.atan((a * c + b * d) / (r * r));
    } else if (c != 0 || d != 0) {
      var s = Math.sqrt(c * c + d * d);
      result.rotation = Math.PI / 2 - (d > 0 ? Math.acos(-c / s) : -Math.acos(c / s));
      result.scaleX = delta / s / scale.x;
      result.scaleY = s / scale.y;
      result.skewX = 0
      result.skewY = Math.atan((a * c + b * d) / (s * s));
    } else { a = b = c = d = 0 }
    result.rotation *= 180 / Math.PI;
    return result;
  }
  \<close>
\<close>

type_synonym matrix = "real \<times> real \<times> real \<times> real \<times> real \<times> real"

record Layer =
  getAbsolutePosition :: Vector2d
  getAbsoluteScale :: Vector2d

record Attrs = Vector2d +
  rotation :: real
  scaleX :: real
  scaleY :: real
  skewX :: real
  skewY :: real

definition decompose :: "matrix \<Rightarrow> Layer \<Rightarrow> Attrs" where
  "decompose mat layer =
     (case mat of (a, b, c, d, e, f) \<Rightarrow>
        let delta = a * d - b * c;
            position = getAbsolutePosition layer;
            scale = getAbsoluteScale layer;
            result = \<lparr>x = (e - x position) / x scale,
                      y = (f - y position) / y scale,
                      rotation = 0, scaleX = 0, scaleY = 0, skewX = 0, skewY = 0\<rparr>;
            result =
              (if a \<noteq> 0 \<or> b \<noteq> 0 then
                 let r = sqrt (a * a + b * b) in
                 result\<lparr>rotation := (if b > 0 then arccos (a / r) else - arccos (a / r)),
                        scaleX := r / x scale,
                        scaleY := delta / r / y scale,
                        skewX := arctan ((a * c + b * d) / (r * r))\<rparr>
               else if c \<noteq> 0 \<or> d \<noteq> 0 then
                 let s = sqrt (c * c + d * d) in
                 result\<lparr>rotation :=
                          pi / 2 - (if d > 0 then arccos (- c / s) else - arccos (c / s)),
                        scaleX := delta / s / x scale,
                        scaleY := s / y scale,
                        skewX := 0,
                        skewY := arctan ((a * c + b * d) / (s * s))\<rparr>
               else result)
        in result\<lparr>rotation := rotation result * (180 / pi)\<rparr>)"

section \<open>Scene nodes and the selection map\<close>

text \<open>
  A \<open>Konva.Node\<close> is an object of the rendering library. The controller reads its
  unique \<open>_id\<close> (\<open>nid\<close>), its \<open>id()\<close> attribute (\<open>id_attr\<close>), its names
  (\<open>hasName\<close>) and its position, and writes its position with \<open>move\<close>. Two
  references are the same object exactly when their \<open>_id\<close> agree, so \<open>===\<close> on nodes
  is equality of \<open>nid\<close>.
\<close>

record Node =
  nid :: nat
  id_attr :: string
  names :: "string list"
  position :: Vector2d

definition hasName :: "Node \<Rightarrow> string \<Rightarrow> bool" where
  "hasName n nm = (nm \<in> set (names n))"

definition move :: "Node \<Rightarrow> Vector2d \<Rightarrow> Node" where
  "move n change =
     n\<lparr>position := \<lparr>x = x (position n) + x change, y = y (position n) + y change\<rparr>\<rparr>"

text \<open>
  \<open>nodes: Map<number, Konva.Node>\<close> is a JavaScript \<open>Map\<close>: keys are unique and
  iteration follows insertion order. It is an association list; \<open>has\<close>, \<open>map_set\<close>,
  \<open>map_delete\<close> and \<open>first_value\<close> are \<open>Map.has\<close>, \<open>Map.set\<close>, \<open>Map.delete\<close>
  and \<open>values().next().value\<close> (\<open>None\<close> for \<open>undefined\<close>); \<open>size\<close> is the length
  and \<open>clear()\<close> the empty list.
\<close>

type_synonym node_map = "(nat \<times> Node) list"

definition keys :: "node_map \<Rightarrow> nat list" where
  "keys m = map fst m"

definition has :: "node_map \<Rightarrow> nat \<Rightarrow> bool" where
  "has m k = (k \<in> set (keys m))"

fun map_set :: "node_map \<Rightarrow> nat \<Rightarrow> Node \<Rightarrow> node_map" where
  "map_set [] k v = [(k, v)]"
| "map_set ((k', v') # m) k v =
     (if k' = k then (k, v) # m else (k', v') # map_set m k v)"

definition map_delete :: "node_map \<Rightarrow> nat \<Rightarrow> node_map" where
  "map_delete m k = filter (\<lambda>kv. fst kv \<noteq> k) m"

definition first_value :: "node_map \<Rightarrow> Node option" where
  "first_value m = (case m of [] \<Rightarrow> None | kv # _ \<Rightarrow> Some (snd kv))"

section \<open>The selection controller\<close>

text \<open>
  The fields of \<open>class KonvaSelection\<close>. An object-valued field that may be
  \<open>undefined\<close> or \<open>null\<close> is an \<open>option\<close>.

  \<^item> \<open>transformer\<close>: \<open>Some t\<close> is a live \<open>Konva.Transformer\<close> and \<open>t\<close> the node
    it holds: \<open>Undefined\<close> for none, one node, or the bounding group (its clones, each
    with its \<open>originalIndex\<close>). A transformer fresh from \<open>new Konva.Transformer()\<close>
    holds none.
  \<^item> \<open>bounding\<close>: the clones of the current bounding group with their
    \<open>originalIndex\<close> attribute.
  \<^item> \<open>selectBox\<close>: the \<open>x, y, width, height\<close> attributes of the marquee rectangle.
  \<^item> \<open>posStart\<close>, \<open>posNow\<close>, \<open>select\<close>: the record \<open>selectAttrs\<close>.
  \<^item> \<open>emitted\<close>: what a subscriber of \<open>change()\<close> since construction has received,
    oldest first. \<open>selectionChange$.next(this.nodes)\<close> hands over the map, and the
    listener runs inside the call, so each entry is the map as it is at that moment.

  Drawing (\<open>draw\<close>, \<open>batchDraw\<close>, \<open>forceUpdate\<close>, \<open>visible\<close>) changes no field
  and is left out. The layer given to the constructor is not stored: what the
  controller asks of the layer arrives as a \<open>Scene\<close> argument.
\<close>

datatype Target = Undefined | Single Node | Group node_map

record KonvaSelection =
  nodes :: node_map
  transformer :: "Target option"
  bounding :: "node_map option"
  selectBox :: "IRect option"
  oldPosition :: "Vector2d option"
  posStart :: "Vector2d option"
  posNow :: "Vector2d option"
  select :: bool
  emitted :: "node_map list"

text \<open>
  A method either returns or throws a \<open>TypeError\<close>. The source catches nothing, so
  a throw ends the method and every caller up to the event handler or the API call,
  and the assignments made before it stay: both outcomes carry the fields as they are
  left.
\<close>

datatype outcome = Returned KonvaSelection | Thrown KonvaSelection

fun state_of :: "outcome \<Rightarrow> KonvaSelection" where
  "state_of (Returned s) = s"
| "state_of (Thrown s) = s"

fun returned :: "outcome \<Rightarrow> bool" where
  "returned (Returned s) = True"
| "returned (Thrown s) = False"

fun and_then :: "outcome \<Rightarrow> (KonvaSelection \<Rightarrow> outcome) \<Rightarrow> outcome" where
  "and_then (Returned s) f = f s"
| "and_then (Thrown s) f = Thrown s"

text \<open>
  What the renderer answers during one \<open>updateDrag\<close>: \<open>layer1.children.toArray()\<close>,
  \<open>getClientRect()\<close> of a node, and \<open>getClientRect({skipStroke, skipShadow})\<close> of
  the marquee rectangle as a function of its attributes. The children of the layer
  change while the controller runs (it adds its transformer and its bounding group to
  the same layer), so every call gets the scene of its moment.
\<close>

record Scene =
  children :: "Node list"
  getClientRect :: "Node \<Rightarrow> IRect"
  selectBoxClientRect :: "IRect \<Rightarrow> IRect"

subsection \<open>Constructor\<close>

text \<open>
  \<^verbatim>\<open>
  constructor(layer, nodes?) {
    this.nodes = new Map(); this.layer = layer; this.initializeEvent();
    if (!Array.isArray(nodes)) { return; }
    for (const node of nodes) { this.nodes.set(node._id, node); }
  }
  \<close>
  The argument is \<open>Some arr\<close> for an array and \<open>None\<close> for a missing argument or any
  value that \<open>Array.isArray\<close> rejects.
\<close>

definition empty_selection :: KonvaSelection where
  "empty_selection =
     \<lparr>nodes = [], transformer = None, bounding = None, selectBox = None,
      oldPosition = None, posStart = None, posNow = None, select = False,
      emitted = []\<rparr>"

definition constructor :: "Node list option \<Rightarrow> KonvaSelection" where
  "constructor arg =
     (case arg of
        None \<Rightarrow> empty_selection
      | Some arr \<Rightarrow>
          empty_selection\<lparr>nodes := fold (\<lambda>node m. map_set m (nid node) node) arr []\<rparr>)"

subsection \<open>Transformer and bounding group\<close>

text \<open>
  \<^verbatim>\<open>
  createBounding() {
    if (this.bounding) { this.bounding.destroy(); }
    this.bounding = new Konva.Group();
    this.nodes.forEach((node) => {
      const clone = node.clone();
      clone.setAttr(this.ORIGINAL_INDEX_ATTR, node._id);
      this.bounding.add(clone);
    });
    this.bounding.visible(false); this.layer.add(this.bounding);
    return this.bounding;
  }
  createTransformer() { this.transformer = new Konva.Transformer(); ...; return this.transformer; }
  isGroup() { return this.nodes.size > 1; }
  updateTransformer() {
    if (!this.transformer) { return; }
    this.transformer
      .attachTo(!this.isGroup() ? this.nodes.values().next().value : this.createBounding())
      .forceUpdate();
  }
  \<close>
  \<open>attachTo\<close> is the rendering library's. For the empty map
  \<open>this.nodes.values().next().value\<close> is \<open>undefined\<close>, and \<open>attachTo(undefined)\<close>
  lets go of the node the transformer held and then throws a \<open>TypeError\<close> on reading a
  property of its argument: \<open>updateTransformer\<close> throws, the transformer still exists
  and holds no node.
\<close>

definition createBounding :: "KonvaSelection \<Rightarrow> node_map \<times> KonvaSelection" where
  "createBounding s =
     (let clones = map (\<lambda>kv. (nid (snd kv), snd kv)) (nodes s)
      in (clones, s\<lparr>bounding := Some clones\<rparr>))"

definition createTransformer :: "KonvaSelection \<Rightarrow> KonvaSelection" where
  "createTransformer s = s\<lparr>transformer := Some Undefined\<rparr>"

definition isGroup :: "KonvaSelection \<Rightarrow> bool" where
  "isGroup s = (length (nodes s) > 1)"

definition updateTransformer :: "KonvaSelection \<Rightarrow> outcome" where
  "updateTransformer s =
     (case transformer s of
        None \<Rightarrow> Returned s
      | Some _ \<Rightarrow>
          if \<not> isGroup s then
            (case first_value (nodes s) of
               None \<Rightarrow> Thrown (s\<lparr>transformer := Some Undefined\<rparr>)
             | Some v \<Rightarrow> Returned (s\<lparr>transformer := Some (Single v)\<rparr>))
          else
            (case createBounding s of
               (clones, s') \<Rightarrow> Returned (s'\<lparr>transformer := Some (Group clones)\<rparr>)))"

subsection \<open>add, remove, clear\<close>

text \<open>
  \<^verbatim>\<open>
  add(node) {
    if (!this.nodes.has(node._id)) {
      this.nodes.set(node._id, node);
      this.selectionChange$.next(this.nodes);
      if (!this.transformer) { this.layer.add(this.createTransformer()); }
      this.updateTransformer();
    }
  }
  remove(node) {
    this.nodes.delete(node._id);
    this.selectionChange$.next(this.nodes);
    if (this.transformer) { this.updateTransformer(); }
  }
  clear() {
    if (this.transformer) { this.transformer.destroy(); this.transformer = null; }
    this.nodes.clear();
  }
  \<close>
\<close>

definition notify :: "KonvaSelection \<Rightarrow> KonvaSelection" where
  "notify s = s\<lparr>emitted := emitted s @ [nodes s]\<rparr>"

definition add :: "KonvaSelection \<Rightarrow> Node \<Rightarrow> outcome" where
  "add s node =
     (if \<not> has (nodes s) (nid node) then
        let s1 = s\<lparr>nodes := map_set (nodes s) (nid node) node\<rparr>;
            s2 = notify s1;
            s3 = (if transformer s2 = None then createTransformer s2 else s2)
        in updateTransformer s3
      else Returned s)"

definition remove :: "KonvaSelection \<Rightarrow> Node \<Rightarrow> outcome" where
  "remove s node =
     (let s1 = s\<lparr>nodes := map_delete (nodes s) (nid node)\<rparr>;
          s2 = notify s1
      in if transformer s2 \<noteq> None then updateTransformer s2 else Returned s2)"

definition clear :: "KonvaSelection \<Rightarrow> KonvaSelection" where
  "clear s =
     (let s1 = (if transformer s \<noteq> None then s\<lparr>transformer := None\<rparr> else s)
      in s1\<lparr>nodes := []\<rparr>)"

text \<open>
  A sequence of calls of the three public mutators, run in order by one caller: a call
  that throws ends the sequence.
\<close>

datatype Op = Add Node | Remove Node | Clear

fun apply_op :: "KonvaSelection \<Rightarrow> Op \<Rightarrow> outcome" where
  "apply_op s (Add n) = add s n"
| "apply_op s (Remove n) = remove s n"
| "apply_op s Clear = Returned (clear s)"

fun run_ops :: "KonvaSelection \<Rightarrow> Op list \<Rightarrow> outcome" where
  "run_ops s [] = Returned s"
| "run_ops s (opn # ops) = and_then (apply_op s opn) (\<lambda>s'. run_ops s' ops)"

text \<open>
  The transform handle is in place when the transformer object exists and holds a
  node or the bounding group.
\<close>

definition handle_attached :: "KonvaSelection \<Rightarrow> bool" where
  "handle_attached s =
     (case transformer s of None \<Rightarrow> False | Some t \<Rightarrow> t \<noteq> Undefined)"

subsection \<open>Marquee selection\<close>

text \<open>
  \<^verbatim>\<open>
  createSelectBox() { this.selectBox = new Konva.Rect({x: 0, y: 0, width: 0, height: 0, ...,
                                                      id: 'selectBox'}); return this.selectBox; }
  startDrag(posIn) {
    this.selectAttrs.posStart = {x: posIn.x, y: posIn.y};
    this.selectAttrs.posNow = {x: posIn.x, y: posIn.y};
  }
  updateDrag(posIn) {
    this.selectAttrs.posNow = {x: posIn.x, y: posIn.y};
    var posRect = reverse(this.selectAttrs.posStart, this.selectAttrs.posNow);
    this.selectBox.setAttrs({x: posRect.x1, y: posRect.y1, width: posRect.x2 - posRect.x1,
                             height: posRect.y2 - posRect.y1, visible: true});
    const nodes = layer1.children.toArray().filter((n) => { return n.id() !== 'selectBox'; });
    const selectBoxRect = this.selectBox.getClientRect({skipStroke: true, skipShadow: true});
    for (let i = 0; i < nodes.length; i = i + 1) {
      if (haveIntersection(nodes[i].getClientRect(), selectBoxRect) && nodes[i].hasName('entity')) {
        this.add(nodes[i]);
      } else {
        this.remove(nodes[i]);
      }
    }
    layer.draw();
  }
  \<close>
  Reading \<open>.x\<close> of a \<open>posStart\<close> that is still \<open>null\<close>, or calling \<open>setAttrs\<close> on
  a \<open>selectBox\<close> that is \<open>null\<close>, throws a \<open>TypeError\<close>. A throw of \<open>add\<close> or
  \<open>remove\<close> ends the loop: the nodes after it are not looked at.
\<close>

definition createSelectBox :: "KonvaSelection \<Rightarrow> KonvaSelection" where
  "createSelectBox s = s\<lparr>selectBox := Some \<lparr>x = 0, y = 0, width = 0, height = 0\<rparr>\<rparr>"

definition startDrag :: "KonvaSelection \<Rightarrow> Vector2d \<Rightarrow> KonvaSelection" where
  "startDrag s posIn =
     s\<lparr>posStart := Some \<lparr>x = x posIn, y = y posIn\<rparr>,
       posNow := Some \<lparr>x = x posIn, y = y posIn\<rparr>\<rparr>"

definition box_attrs :: "DragRect \<Rightarrow> IRect" where
  "box_attrs posRect =
     \<lparr>x = x1 posRect, y = y1 posRect,
      width = x2 posRect - x1 posRect, height = y2 posRect - y1 posRect\<rparr>"

definition collision_step :: "Scene \<Rightarrow> IRect \<Rightarrow> Node \<Rightarrow> KonvaSelection \<Rightarrow> outcome" where
  "collision_step sc selectBoxRect n s =
     (if haveIntersection (getClientRect sc n) selectBoxRect \<and> hasName n ''entity''
      then add s n
      else remove s n)"

fun collision_loop :: "Scene \<Rightarrow> IRect \<Rightarrow> Node list \<Rightarrow> KonvaSelection \<Rightarrow> outcome" where
  "collision_loop sc selectBoxRect [] s = Returned s"
| "collision_loop sc selectBoxRect (n # ns) s =
     and_then (collision_step sc selectBoxRect n s) (collision_loop sc selectBoxRect ns)"

definition updateDrag :: "KonvaSelection \<Rightarrow> Scene \<Rightarrow> Vector2d \<Rightarrow> outcome" where
  "updateDrag s sc posIn =
     (let now = \<lparr>x = x posIn, y = y posIn\<rparr>;
          s1 = s\<lparr>posNow := Some now\<rparr>
      in case posStart s1 of
           None \<Rightarrow> Thrown s1
         | Some start \<Rightarrow>
             let posRect = reverse start now in
             (case selectBox s1 of
                None \<Rightarrow> Thrown s1
              | Some _ \<Rightarrow>
                  let s2 = s1\<lparr>selectBox := Some (box_attrs posRect)\<rparr>;
                      candidates = filter (\<lambda>n. id_attr n \<noteq> ''selectBox'') (children sc);
                      selectBoxRect = selectBoxClientRect sc (box_attrs posRect)
                  in collision_loop sc selectBoxRect candidates s2))"

text \<open>
  The stage handlers registered by \<open>initializeEvent\<close>. The event target is the stage
  itself or a shape; the stage of the source is created without a name, so
  \<open>hasName('entity')\<close> is false of it. The pointer position is the value of
  \<open>getRelativePointerPosition(this.layer.getLayer())\<close>.
  \<^verbatim>\<open>
  .on('mousedown', (e) => {
    if (e.target === stage) {
      this.clear();
      this.selectAttrs.select = true;
      if (!this.selectBox) { this.layer.getLayer().add(this.createSelectBox()); }
      this.startDrag(getRelativePointerPosition(this.layer.getLayer()));
    }
    if (e.target.hasName('entity')) {
      if (!e.evt.shiftKey && !this.nodes.has(e.target._id)) { this.clear(); }
      this.add(e.target);
    }
  })
  .on('mousemove', (e) => {
    if (this.selectAttrs.select) { this.updateDrag(getRelativePointerPosition(...)); }
  })
  \<close>
\<close>

datatype EventTarget = Stage | Shape Node

definition mousedown :: "KonvaSelection \<Rightarrow> EventTarget \<Rightarrow> bool \<Rightarrow> Vector2d \<Rightarrow> outcome" where
  "mousedown s target shiftKey pointer =
     (case target of
        Stage \<Rightarrow>
          let s1 = clear s;
              s2 = s1\<lparr>select := True\<rparr>;
              s3 = (if selectBox s2 = None then createSelectBox s2 else s2)
          in Returned (startDrag s3 pointer)
      | Shape n \<Rightarrow>
          if hasName n ''entity'' then
            let s1 = (if \<not> shiftKey \<and> \<not> has (nodes s) (nid n) then clear s else s)
            in add s1 n
          else Returned s)"

definition mousemove :: "KonvaSelection \<Rightarrow> Scene \<Rightarrow> Vector2d \<Rightarrow> outcome" where
  "mousemove s sc pointer = (if select s then updateDrag s sc pointer else Returned s)"

text \<open>
  A marquee gesture: the pointer goes down on the empty stage at \<open>p0\<close> and then moves,
  one \<open>mousemove\<close> event per element of the list, each with the scene of its moment
  and the pointer position. Events are dispatched one by one: a handler that throws
  does not keep the next event from being handled, on the fields as they were left.
  The gesture gives the outcomes of its move events in their order.
\<close>

fun mousemoves :: "KonvaSelection \<Rightarrow> (Scene \<times> Vector2d) list \<Rightarrow> outcome list" where
  "mousemoves s [] = []"
| "mousemoves s (m # ms) =
     mousemove s (fst m) (snd m) # mousemoves (state_of (mousemove s (fst m) (snd m))) ms"

definition marquee ::
  "KonvaSelection \<Rightarrow> bool \<Rightarrow> Vector2d \<Rightarrow> (Scene \<times> Vector2d) list \<Rightarrow> outcome list" where
  "marquee s shiftKey p0 ms = mousemoves (state_of (mousedown s Stage shiftKey p0)) ms"


subsection \<open>Dragging a selected node\<close>

text \<open>
  \<^verbatim>\<open>
  .on('dragstart', (e) => { this.oldPosition = e.target.position(); })
  .on('dragmove', (e) => {
    const diffPos = {x: e.target.x() - this.oldPosition.x, y: e.target.y() - this.oldPosition.y};
    this.nodes.forEach((child) => {
      if (child === e.target) { return; }
      child.move(diffPos);
    });
    this.oldPosition = e.target.position();
    this.updateTransformer();
  });
  \<close>
  The renderer has moved \<open>e.target\<close> before it fires \<open>dragmove\<close>; the handler gets the
  target as it is then. An entry of the map that is \<open>e.target\<close> is that same object,
  so after the handler it shows the target's attributes. Reading
  \<open>this.oldPosition.x\<close> before any \<open>dragstart\<close> throws.
\<close>

definition dragstart :: "KonvaSelection \<Rightarrow> Node \<Rightarrow> KonvaSelection" where
  "dragstart s target = s\<lparr>oldPosition := Some (position target)\<rparr>"

definition dragmove :: "KonvaSelection \<Rightarrow> Node \<Rightarrow> outcome" where
  "dragmove s target =
     (case oldPosition s of
        None \<Rightarrow> Thrown s
      | Some old \<Rightarrow>
          let diffPos = \<lparr>x = x (position target) - x old, y = y (position target) - y old\<rparr>;
              s1 = s\<lparr>nodes := map (\<lambda>kv. if nid (snd kv) = nid target
                                        then (fst kv, target)
                                        else (fst kv, move (snd kv) diffPos)) (nodes s)\<rparr>;
              s2 = s1\<lparr>oldPosition := Some (position target)\<rparr>
          in updateTransformer s2)"

text \<open>
  A drag gesture on \<open>target\<close>: \<open>dragstart\<close>, then one \<open>dragmove\<close> event per frame, the
  renderer having put the target at the frame's position \<open>p\<close>. As with the marquee,
  each event is handled on the fields the one before left, and the gesture gives the
  outcomes of its \<open>dragmove\<close> events in their order.
\<close>

fun dragmoves :: "KonvaSelection \<Rightarrow> Node \<Rightarrow> Vector2d list \<Rightarrow> outcome list" where
  "dragmoves s target [] = []"
| "dragmoves s target (p # ps) =
     dragmove s (target\<lparr>position := p\<rparr>) #
     dragmoves (state_of (dragmove s (target\<lparr>position := p\<rparr>))) target ps"

definition drag :: "KonvaSelection \<Rightarrow> Node \<Rightarrow> Vector2d list \<Rightarrow> outcome list" where
  "drag s target ps = dragmoves (dragstart s target) target ps"

section \<open>Notions used to state the properties\<close>

text \<open>
  The node that \<open>updateTransformer\<close> hands to \<open>attachTo\<close> for a map that is not
  empty: the bounding group when the selection is a group, else the first value of the
  map. (For the empty map it is \<open>undefined\<close>.)
\<close>

definition target_of :: "node_map \<Rightarrow> Target" where
  "target_of m =
     (if length m > 1 then Group (map (\<lambda>kv. (nid (snd kv), snd kv)) m)
      else (case first_value m of None \<Rightarrow> Undefined | Some v \<Rightarrow> Single v))"

text \<open>
  Handle and selection are in step: either there is no transformer and nothing is
  selected, or something is selected and the transformer holds what
  \<open>updateTransformer\<close> computes from the current map.
\<close>

definition in_step :: "KonvaSelection \<Rightarrow> bool" where
  "in_step s =
     (case transformer s of
        None \<Rightarrow> nodes s = []
      | Some t \<Rightarrow> nodes s \<noteq> [] \<and> t = target_of (nodes s))"


definition is_hit :: "Scene \<Rightarrow> IRect \<Rightarrow> Node \<Rightarrow> bool" where
  "is_hit sc selectBoxRect n =
     (haveIntersection (getClientRect sc n) selectBoxRect \<and> hasName n ''entity'')"

definition selected_ids :: "outcome \<Rightarrow> nat list" where
  "selected_ids r = keys (nodes (state_of r))"

text \<open>
  \<open>delta p q\<close> is the \<open>diffPos\<close> of a drag frame from \<open>q\<close> to \<open>p\<close>, and
  \<open>dragged target p0 p\<close> is what a drag of \<open>target\<close> from \<open>p0\<close> to \<open>p\<close> makes of
  one entry of the map: the target itself sits at \<open>p\<close>, any other node has moved by
  \<open>delta p p0\<close>.
\<close>

definition delta :: "Vector2d \<Rightarrow> Vector2d \<Rightarrow> Vector2d" where
  "delta p q = \<lparr>x = x p - x q, y = y p - y q\<rparr>"

definition dragged :: "Node \<Rightarrow> Vector2d \<Rightarrow> Vector2d \<Rightarrow> nat \<times> Node \<Rightarrow> nat \<times> Node" where
  "dragged target p0 p kv =
     (if nid (snd kv) = nid target then (fst kv, target\<lparr>position := p\<rparr>)
      else (fst kv, move (snd kv) (delta p p0)))"

section \<open>An example scene\<close>

text \<open>
  Three entities laid out as the source's demo lays them out:
  \<^verbatim>\<open>
  for (let i = 1; i < 4; i++) {
    const radius = i % 2 === 0 ? 30 : 50;
    const c = new Konva.Line({points: [0, 0, radius, 0, radius, radius, 0, radius], closed: true,
                              x: 100 * i, y: 100, ..., name: 'entity', ...,
                              tension: i % 2 === 0 ? 0.55 : null});
    layer1.add(c);
  }
  \<close>
  The entities carry no \<open>id\<close> attribute; their \<open>_id\<close> stands as \<open>i\<close>. The client
  rectangles are data of the scene: the square \<open>{100 i, 100, 50, 50}\<close> for entities 1
  and 3, and \<open>{192, 92, 47, 47}\<close> for entity 2, whose tension makes its outline bulge
  beyond its points. The stage is neither panned nor zoomed, so the marquee's client
  rectangle is its attributes.
\<close>

definition demo_entity :: "nat \<Rightarrow> Node" where
  "demo_entity i =
     \<lparr>nid = i, id_attr = [], names = [''entity''],
      position = \<lparr>x = 100 * real i, y = 100\<rparr>\<rparr>"

definition demo_scene :: Scene where
  "demo_scene =
     \<lparr>children = [demo_entity 1, demo_entity 2, demo_entity 3],
      getClientRect =
        (\<lambda>n. if nid n = 2 then \<lparr>x = 192, y = 92, width = 47, height = 47\<rparr>
              else \<lparr>x = x (position n), y = y (position n), width = 50, height = 50\<rparr>),
      selectBoxClientRect = (\<lambda>r. r)\<rparr>"

section \<open>Properties of the geometry utilities\<close>

lemma swap_axis_ordered: "fst (swap_axis u v) \<le> snd (swap_axis u v)"
  by (simp add: swap_axis_def Let_def)

text \<open>
  Claim C6. For rectangles \<open>A\<close> and \<open>B\<close> of non-negative width and height the
  intersection test gives the same answer in both argument orders and holds of a
  rectangle and itself; and when \<open>B\<close> starts exactly where \<open>A\<close> ends on the x axis
  (\<open>B.x = A.x + A.width\<close>), the two merely touching along that edge with their vertical
  extents meeting, the test answers true.
\<close>

theorem haveIntersection_comm_refl_touch:
  assumes "0 \<le> width A" and "0 \<le> height A" and "0 \<le> width B" and "0 \<le> height B"
  shows "haveIntersection A B = haveIntersection B A \<and>
         haveIntersection A A \<and>
         (x B = x A + width A \<and> y B \<le> y A + height A \<and> y A \<le> y B + height B
            \<longrightarrow> haveIntersection A B)"
  using assms by (auto simp add: haveIntersection_def)

theorem haveIntersection_comm_refl_touch_witness:
  "haveIntersection \<lparr>x = 0, y = 0, width = 10, height = 10\<rparr>
                    \<lparr>x = 10, y = 5, width = 3, height = 20\<rparr>
   \<and> haveIntersection \<lparr>x = 10, y = 5, width = 3, height = 20\<rparr>
                      \<lparr>x = 0, y = 0, width = 10, height = 10\<rparr>
   \<and> haveIntersection \<lparr>x = 0, y = 0, width = 10, height = 10\<rparr>
                      \<lparr>x = 0, y = 0, width = 10, height = 10\<rparr>"
  using haveIntersection_comm_refl_touch
          [of "\<lparr>x = 0, y = 0, width = 10, height = 10\<rparr>"
              "\<lparr>x = 10, y = 5, width = 3, height = 20\<rparr>"]
  by auto

text \<open>
  Claim C8. For all points \<open>p1\<close> and \<open>p2\<close> the rectangle that \<open>reverse\<close> returns has
  \<open>x1 \<le> x2\<close> and \<open>y1 \<le> y2\<close>, so the width \<open>x2 - x1\<close> and the height \<open>y2 - y1\<close>
  derived from it are never negative.
\<close>

theorem reverse_ordered:
  "x1 (reverse p1 p2) \<le> x2 (reverse p1 p2) \<and>
   y1 (reverse p1 p2) \<le> y2 (reverse p1 p2) \<and>
   0 \<le> x2 (reverse p1 p2) - x1 (reverse p1 p2) \<and>
   0 \<le> y2 (reverse p1 p2) - y1 (reverse p1 p2)"
  using swap_axis_ordered [of "x p1" "x p2"] swap_axis_ordered [of "y p1" "y p2"]
  by (simp add: reverse_def split_def Let_def)

text \<open>
  Claim C4. For a matrix \<open>[a b c d e f]\<close> with \<open>a \<noteq> 0\<close> or \<open>b \<noteq> 0\<close> and a layer of
  absolute position \<open>(px, py)\<close> and non-zero absolute scale \<open>(sx, sy)\<close>, with
  \<open>r = sqrt (a\<^sup>2 + b\<^sup>2)\<close>, \<open>decompose\<close> returns \<open>x = (e - px) / sx\<close>,
  \<open>y = (f - py) / sy\<close>, the rotation \<open>arccos (a / r)\<close>, negated unless \<open>b > 0\<close>, in
  degrees, \<open>scaleX = r / sx\<close>, \<open>scaleY = (a d - b c) / r / sy\<close>,
  \<open>skewX = arctan ((a c + b d) / r\<^sup>2)\<close> and \<open>skewY = 0\<close>.
\<close>

theorem decompose_first_branch:
  assumes "a \<noteq> 0 \<or> b \<noteq> 0" and "sx \<noteq> 0" and "sy \<noteq> 0"
    and "r = sqrt (a\<^sup>2 + b\<^sup>2)"
  shows "decompose (a, b, c, d, e, f)
           \<lparr>getAbsolutePosition = \<lparr>x = px, y = py\<rparr>,
            getAbsoluteScale = \<lparr>x = sx, y = sy\<rparr>\<rparr> =
         \<lparr>x = (e - px) / sx,
          y = (f - py) / sy,
          rotation = (if b > 0 then arccos (a / r) else - arccos (a / r)) * (180 / pi),
          scaleX = r / sx,
          scaleY = (a * d - b * c) / r / sy,
          skewX = arctan ((a * c + b * d) / r\<^sup>2),
          skewY = 0\<rparr>"
proof -
  have r: "sqrt (a * a + b * b) = r"
    using assms(4) by (simp add: power2_eq_square)
  have rr: "r * r = r\<^sup>2"
    by (simp add: power2_eq_square)
  show ?thesis
    using assms(1) by (simp add: decompose_def Let_def r rr)
qed

theorem decompose_first_branch_witness:
  "decompose (0, 1, - 1, 0, 30, 50)
     \<lparr>getAbsolutePosition = \<lparr>x = 10, y = 20\<rparr>, getAbsoluteScale = \<lparr>x = 2, y = 5\<rparr>\<rparr> =
   \<lparr>x = 10, y = 6, rotation = 90, scaleX = 1 / 2, scaleY = 1 / 5, skewX = 0, skewY = 0\<rparr>"
  using decompose_first_branch [of 0 1 2 5 1 "- 1" 0 30 50 10 20]
  by simp

text \<open>
  Claim C9. When \<open>decompose\<close> takes its second branch, that is \<open>a = 0\<close> and \<open>b = 0\<close>
  while \<open>c \<noteq> 0\<close> or \<open>d \<noteq> 0\<close>, the determinant \<open>a d - b c\<close> is \<open>0\<close> and, for every
  layer of non-zero absolute scale, the \<open>scaleX\<close> it returns is \<open>0\<close>.
\<close>

theorem decompose_second_branch_scaleX:
  assumes "a = 0" and "b = 0" and "c \<noteq> 0 \<or> d \<noteq> 0"
    and "x (getAbsoluteScale layer) \<noteq> 0" and "y (getAbsoluteScale layer) \<noteq> 0"
  shows "a * d - b * c = 0 \<and> scaleX (decompose (a, b, c, d, e, f) layer) = 0"
  using assms by (auto simp add: decompose_def Let_def)

theorem decompose_second_branch_scaleX_witness:
  "(0::real) * 4 - 0 * 3 = 0 \<and>
   scaleX (decompose (0, 0, 3, 4, 7, 9)
             \<lparr>getAbsolutePosition = \<lparr>x = 1, y = 1\<rparr>,
              getAbsoluteScale = \<lparr>x = 2, y = 2\<rparr>\<rparr>) = 0"
  using decompose_second_branch_scaleX
          [of 0 0 3 4 "\<lparr>getAbsolutePosition = \<lparr>x = 1, y = 1\<rparr>,
                         getAbsoluteScale = \<lparr>x = 2, y = 2\<rparr>\<rparr>" 7 9]
  by simp

section \<open>Properties of the selection controller\<close>

subsection \<open>What the map operations and the mutators do to each field\<close>

lemma keys_map_set:
  "keys (map_set m k v) = (if k \<in> set (keys m) then keys m else keys m @ [k])"
  by (induction m) (force simp add: keys_def)+

lemma map_set_absent: "k \<notin> set (keys m) \<Longrightarrow> map_set m k v = m @ [(k, v)]"
  by (induction m) (auto simp add: keys_def)

lemma keys_map_delete: "keys (map_delete m k) = filter (\<lambda>k'. k' \<noteq> k) (keys m)"
  by (induction m) (auto simp add: keys_def map_delete_def)

lemma map_delete_absent: "k \<notin> set (keys m) \<Longrightarrow> map_delete m k = m"
  by (induction m) (auto simp add: keys_def map_delete_def)

lemma length_map_delete_present:
  "k \<in> set (keys m) \<Longrightarrow> length (map_delete m k) < length m"
  unfolding map_delete_def keys_def
  by (auto intro: length_filter_less)

lemma target_of_Undefined: "(target_of m = Undefined) = (m = [])"
  by (cases m) (simp_all add: target_of_def first_value_def)

lemma updateTransformer_cases:
  "updateTransformer s =
     (case transformer s of
        None \<Rightarrow> Returned s
      | Some _ \<Rightarrow>
          if nodes s = [] then Thrown (s\<lparr>transformer := Some Undefined\<rparr>)
          else if isGroup s
          then Returned (s\<lparr>bounding := Some (map (\<lambda>kv. (nid (snd kv), snd kv)) (nodes s)),
                           transformer := Some (target_of (nodes s))\<rparr>)
          else Returned (s\<lparr>transformer := Some (target_of (nodes s))\<rparr>))"
  by (cases "nodes s")
     (auto simp add: updateTransformer_def createBounding_def isGroup_def target_of_def
       first_value_def Let_def split: option.splits)

lemma nodes_updateTransformer [simp]: "nodes (state_of (updateTransformer s)) = nodes s"
  by (simp add: updateTransformer_cases split: option.splits)

lemma emitted_updateTransformer [simp]: "emitted (state_of (updateTransformer s)) = emitted s"
  by (simp add: updateTransformer_cases split: option.splits)

lemma other_fields_updateTransformer [simp]:
  "posStart (state_of (updateTransformer s)) = posStart s"
  "selectBox (state_of (updateTransformer s)) = selectBox s"
  "select (state_of (updateTransformer s)) = select s"
  "oldPosition (state_of (updateTransformer s)) = oldPosition s"
  by (simp_all add: updateTransformer_cases split: option.splits)

lemma transformer_updateTransformer:
  "transformer (state_of (updateTransformer s)) =
     (case transformer s of None \<Rightarrow> None | Some _ \<Rightarrow> Some (target_of (nodes s)))"
  by (simp add: updateTransformer_cases target_of_Undefined [THEN iffD2] split: option.splits)

lemma returned_updateTransformer:
  "returned (updateTransformer s) = (transformer s = None \<or> nodes s \<noteq> [])"
  by (simp add: updateTransformer_cases split: option.splits)

lemma add_present: "has (nodes s) (nid n) \<Longrightarrow> add s n = Returned s"
  by (simp add: add_def)

lemma returned_add: "returned (add s n)"
  by (simp add: add_def Let_def returned_updateTransformer notify_def createTransformer_def
      has_def map_set_absent)

lemma nodes_add:
  "nodes (state_of (add s n)) =
     (if has (nodes s) (nid n) then nodes s else nodes s @ [(nid n, n)])"
  by (simp add: add_def Let_def notify_def createTransformer_def has_def map_set_absent)

lemma emitted_add:
  "emitted (state_of (add s n)) =
     (if has (nodes s) (nid n) then emitted s else emitted s @ [nodes s @ [(nid n, n)]])"
  by (simp add: add_def Let_def notify_def createTransformer_def has_def map_set_absent)

lemma transformer_add:
  "transformer (state_of (add s n)) =
     (if has (nodes s) (nid n) then transformer s
      else Some (target_of (nodes s @ [(nid n, n)])))"
  by (simp add: add_def Let_def notify_def createTransformer_def has_def map_set_absent
      transformer_updateTransformer split: option.splits)

lemma nodes_remove: "nodes (state_of (remove s n)) = map_delete (nodes s) (nid n)"
  by (simp add: remove_def Let_def notify_def)

lemma emitted_remove:
  "emitted (state_of (remove s n)) = emitted s @ [map_delete (nodes s) (nid n)]"
  by (simp add: remove_def Let_def notify_def)

lemma transformer_remove:
  "transformer (state_of (remove s n)) =
     (case transformer s of None \<Rightarrow> None
      | Some _ \<Rightarrow> Some (target_of (map_delete (nodes s) (nid n))))"
  by (simp add: remove_def Let_def notify_def transformer_updateTransformer
      split: option.splits)

lemma returned_remove:
  "returned (remove s n) = (transformer s = None \<or> map_delete (nodes s) (nid n) \<noteq> [])"
  by (auto simp add: remove_def Let_def notify_def returned_updateTransformer)

subsection \<open>The transform handle\<close>

lemma in_step_add: "in_step s \<or> \<not> has (nodes s) (nid n) \<Longrightarrow> in_step (state_of (add s n))"
  by (auto simp add: in_step_def transformer_add nodes_add add_present split: option.splits)

lemma in_step_remove: "in_step s \<Longrightarrow> returned (remove s n) \<Longrightarrow> in_step (state_of (remove s n))"
  by (auto simp add: in_step_def transformer_remove nodes_remove returned_remove map_delete_def
      split: option.splits)

lemma in_step_clear: "in_step (clear s)"
  by (simp add: in_step_def clear_def Let_def)

lemma in_step_apply_op:
  "in_step s \<Longrightarrow> returned (apply_op s opn) \<Longrightarrow> in_step (state_of (apply_op s opn))"
  by (cases opn) (simp_all add: in_step_add in_step_remove in_step_clear)

lemma in_step_run_ops:
  "in_step s \<Longrightarrow> returned (run_ops s ops) \<Longrightarrow> in_step (state_of (run_ops s ops))"
proof (induction ops arbitrary: s)
  case Nil
  then show ?case by simp
next
  case (Cons opn ops)
  show ?case
  proof (cases "apply_op s opn")
    case (Returned s1)
    then have "in_step s1"
      using in_step_apply_op [OF Cons.prems(1), of opn] by simp
    then show ?thesis
      using Cons.IH [of s1] Cons.prems(2) Returned by simp
  next
    case (Thrown s1)
    then show ?thesis using Cons.prems(2) by simp
  qed
qed

lemma in_step_constructor: "in_step (constructor None)" "in_step (constructor (Some []))"
  by (simp_all add: in_step_def constructor_def empty_selection_def)

lemma in_step_handle:
  "in_step s \<Longrightarrow>
   (handle_attached s = (nodes s \<noteq> [])) \<and>
   (nodes s \<noteq> [] \<longrightarrow> transformer s = Some (target_of (nodes s))) \<and>
   (nodes s = [] \<longrightarrow> transformer s = None)"
  by (cases "transformer s") (auto simp add: in_step_def handle_attached_def target_of_Undefined)

text \<open>
  Claim C1, as amended. Take a controller in which handle and selection are known to
  be in step: one constructed without an array or with an empty array, or any
  controller right after \<open>clear()\<close> or after an \<open>add\<close> of a node that was not
  selected. In every state that calls of \<open>add\<close>, \<open>remove\<close> and \<open>clear\<close> reach from
  it, all of them returning, the transformer exists and is attached exactly when the
  selection map is not empty; it is then attached to the only node of the map, or to
  the bounding group when the map holds more than one node; and when the map is empty
  there is no transformer. A sequence in which a call throws is not spoken of.
\<close>

theorem handle_attached_iff_selected:
  assumes "start = constructor None \<or> start = constructor (Some []) \<or> start = clear s0 \<or>
           (\<not> has (nodes s0) (nid n) \<and> start = state_of (add s0 n))"
    and "returned (run_ops start ops)"
  shows "(handle_attached (state_of (run_ops start ops)) =
            (nodes (state_of (run_ops start ops)) \<noteq> [])) \<and>
         (nodes (state_of (run_ops start ops)) \<noteq> [] \<longrightarrow>
            transformer (state_of (run_ops start ops)) =
              Some (target_of (nodes (state_of (run_ops start ops))))) \<and>
         (nodes (state_of (run_ops start ops)) = [] \<longrightarrow>
            transformer (state_of (run_ops start ops)) = None)"
proof -
  have "in_step start"
    using assms(1) in_step_constructor in_step_clear [of s0] in_step_add [of s0 n] by auto
  then have "in_step (state_of (run_ops start ops))"
    using assms(2) by (rule in_step_run_ops)
  then show ?thesis
    by (rule in_step_handle)
qed

theorem handle_attached_iff_selected_witness:
  "returned (run_ops (constructor None)
      [Add (demo_entity 1), Add (demo_entity 2), Remove (demo_entity 1)]) \<and>
   handle_attached (state_of (run_ops (constructor None)
      [Add (demo_entity 1), Add (demo_entity 2), Remove (demo_entity 1)])) \<and>
   nodes (state_of (run_ops (constructor None)
      [Add (demo_entity 1), Add (demo_entity 2), Remove (demo_entity 1)])) =
     [(2, demo_entity 2)] \<and>
   transformer (state_of (run_ops (constructor None)
      [Add (demo_entity 1), Add (demo_entity 2), Remove (demo_entity 1)])) =
     Some (Single (demo_entity 2))"
proof -
  have r: "returned (run_ops (constructor None)
      [Add (demo_entity 1), Add (demo_entity 2), Remove (demo_entity 1)])"
    by (simp add: add_def remove_def updateTransformer_cases notify_def createTransformer_def
        isGroup_def constructor_def empty_selection_def has_def keys_def map_delete_def
        demo_entity_def Let_def)
  have n: "nodes (state_of (run_ops (constructor None)
      [Add (demo_entity 1), Add (demo_entity 2), Remove (demo_entity 1)])) =
     [(2, demo_entity 2)]"
    by (simp add: add_def remove_def updateTransformer_cases notify_def createTransformer_def
        isGroup_def constructor_def empty_selection_def has_def keys_def map_delete_def
        demo_entity_def Let_def)
  show ?thesis
    using handle_attached_iff_selected
      [of "constructor None" "constructor None" "demo_entity 1"
          "[Add (demo_entity 1), Add (demo_entity 2), Remove (demo_entity 1)]", OF _ r] r n
    by (simp add: target_of_def first_value_def)
qed

text \<open>
  The claim as stated, over every controller, fails: a controller constructed with the
  array \<open>[entity 1]\<close> has a non-empty map and no transformer, and \<open>remove\<close> of
  an entity that is not selected returns and leaves it so.
\<close>

theorem no_handle_for_seeded_selection:
  "returned (run_ops (constructor (Some [demo_entity 1])) [Remove (demo_entity 2)]) \<and>
   \<not> (handle_attached
        (state_of (run_ops (constructor (Some [demo_entity 1])) [Remove (demo_entity 2)])) =
       (nodes (state_of (run_ops (constructor (Some [demo_entity 1])) [Remove (demo_entity 2)]))
          \<noteq> []))"
  by (simp add: remove_def notify_def handle_attached_def constructor_def
      empty_selection_def map_delete_def demo_entity_def Let_def)

text \<open>
  The case the amended claim leaves out: \<open>add(n); remove(n)\<close> on a fresh controller.
  The second call empties the map, notifies, and throws in \<open>updateTransformer\<close>;
  the transformer is not destroyed.
\<close>

lemma remove_last_throws:
  "run_ops (constructor None) [Add n, Remove n] =
     Thrown ((constructor None)\<lparr>transformer := Some Undefined, emitted := [[(nid n, n)], []]\<rparr>)"
  by (simp add: add_def remove_def updateTransformer_cases notify_def createTransformer_def
      isGroup_def constructor_def empty_selection_def has_def keys_def map_delete_def
      target_of_def first_value_def Let_def)

subsection \<open>Change notifications\<close>

text \<open>
  Claim C2, as amended. \<open>add(e)\<close> with \<open>e\<close> absent returns, appends \<open>e\<close> under its
  \<open>_id\<close> (the size grows by one) and emits one notification, which carries the new
  map with \<open>e\<close> in it; \<open>add(e)\<close> with \<open>e\<close> present changes nothing at all;
  \<open>remove(e)\<close> with \<open>e\<close> present deletes it and emits one notification carrying
  the new map; \<open>remove(e)\<close> with \<open>e\<close> absent leaves the map as it is and still
  emits one notification, carrying the unchanged map. Map and notifications of
  \<open>remove\<close> are as said whether or not the call goes on to throw.
\<close>

theorem add_remove_notifications:
  "(\<not> has (nodes s) (nid e) \<longrightarrow>
      returned (add s e) \<and>
      nodes (state_of (add s e)) = nodes s @ [(nid e, e)] \<and>
      length (nodes (state_of (add s e))) = length (nodes s) + 1 \<and>
      emitted (state_of (add s e)) = emitted s @ [nodes (state_of (add s e))] \<and>
      (nid e, e) \<in> set (nodes (state_of (add s e)))) \<and>
   (has (nodes s) (nid e) \<longrightarrow> add s e = Returned s) \<and>
   (has (nodes s) (nid e) \<longrightarrow>
      nodes (state_of (remove s e)) = map_delete (nodes s) (nid e) \<and>
      \<not> has (nodes (state_of (remove s e))) (nid e) \<and>
      length (nodes (state_of (remove s e))) < length (nodes s) \<and>
      emitted (state_of (remove s e)) = emitted s @ [nodes (state_of (remove s e))]) \<and>
   (\<not> has (nodes s) (nid e) \<longrightarrow>
      nodes (state_of (remove s e)) = nodes s \<and>
      emitted (state_of (remove s e)) = emitted s @ [nodes s])"
proof -
  have r: "\<not> has (nodes (state_of (remove s e))) (nid e)"
    by (simp add: nodes_remove has_def keys_map_delete)
  show ?thesis
    using r
    by (simp add: add_present returned_add nodes_add emitted_add nodes_remove emitted_remove
        has_def map_delete_absent length_map_delete_present)
qed

theorem add_remove_notifications_witness:
  "nodes (state_of (add (constructor None) (demo_entity 1))) = [(1, demo_entity 1)] \<and>
   emitted (state_of (add (constructor None) (demo_entity 1))) = [[(1, demo_entity 1)]] \<and>
   add (state_of (add (constructor None) (demo_entity 1))) (demo_entity 1) =
     Returned (state_of (add (constructor None) (demo_entity 1))) \<and>
   nodes (state_of (remove (state_of (add (constructor None) (demo_entity 1)))
                           (demo_entity 1))) = [] \<and>
   emitted (state_of (remove (state_of (add (constructor None) (demo_entity 1)))
                             (demo_entity 1))) =
     [[(1, demo_entity 1)], []] \<and>
   emitted (state_of (remove (constructor None) (demo_entity 1))) = [[]]"
  using add_remove_notifications [of "constructor None" "demo_entity 1"]
        add_remove_notifications
          [of "state_of (add (constructor None) (demo_entity 1))" "demo_entity 1"]
  by (simp add: nodes_add emitted_add has_def keys_def constructor_def empty_selection_def
      demo_entity_def map_delete_def)

text \<open>
  The claim as stated fails in its last case: \<open>remove\<close> of an entity that is not
  selected emits a notification.
\<close>

theorem remove_absent_notifies:
  "\<not> (\<not> has (nodes (constructor None)) (nid (demo_entity 1)) \<and>
       emitted (state_of (remove (constructor None) (demo_entity 1))) =
         emitted (constructor None))"
  by (simp add: emitted_remove)

text \<open>
  \<open>clear\<close> empties the map without a notification, and the constructor seeds it
  without one (see below): only \<open>add\<close> and \<open>remove\<close> notify.
\<close>

lemma clear_emits_nothing: "emitted (clear s) = emitted s \<and> nodes (clear s) = []"
  by (simp add: clear_def Let_def)

subsection \<open>The constructor\<close>

lemma set_map_set: "set (map_set m k v) \<subseteq> insert (k, v) (set m)"
  by (induction m) (auto split: if_splits)

lemma keys_fold_map_set:
  "set (keys (fold (\<lambda>node m. map_set m (nid node) node) arr m)) = set (keys m) \<union> nid ` set arr"
  by (induction arr arbitrary: m) (auto simp add: keys_map_set)

lemma entries_fold_map_set:
  "set (fold (\<lambda>node m. map_set m (nid node) node) arr m) \<subseteq> set m \<union> (\<lambda>n. (nid n, n)) ` set arr"
proof (induction arr arbitrary: m)
  case Nil
  then show ?case by simp
next
  case (Cons n arr)
  show ?case
    using Cons.IH [of "map_set m (nid n) n"] set_map_set [of m "nid n" n]
    by auto
qed

lemma fold_map_set_distinct:
  "distinct (map nid arr) \<Longrightarrow> set (keys m) \<inter> nid ` set arr = {} \<Longrightarrow>
   fold (\<lambda>node m. map_set m (nid node) node) arr m = m @ map (\<lambda>n. (nid n, n)) arr"
proof (induction arr arbitrary: m)
  case Nil
  then show ?case by simp
next
  case (Cons n arr)
  have absent: "nid n \<notin> set (keys m)"
    using Cons.prems(2) by auto
  have "set (keys (m @ [(nid n, n)])) \<inter> nid ` set arr = {}"
    using Cons.prems by (auto simp add: keys_def)
  then show ?case
    using Cons.IH [of "m @ [(nid n, n)]"] Cons.prems(1) by (simp add: map_set_absent [OF absent])
qed

text \<open>
  Claim C10. A controller constructed with an array of nodes holds exactly those nodes,
  each under its own \<open>_id\<close> (in the order of the array when the \<open>_id\<close> are
  distinct), has emitted no notification and has no transformer, whereas \<open>add\<close> on a
  fresh controller emits one notification and creates and attaches a transformer; a
  controller constructed without an array has the empty map.
\<close>

theorem constructor_seeds_silently:
  "nodes (constructor None) = [] \<and>
   set (keys (nodes (constructor (Some arr)))) = nid ` set arr \<and>
   (\<forall>kv \<in> set (nodes (constructor (Some arr))). fst kv = nid (snd kv) \<and> snd kv \<in> set arr) \<and>
   (distinct (map nid arr) \<longrightarrow>
      nodes (constructor (Some arr)) = map (\<lambda>n. (nid n, n)) arr) \<and>
   emitted (constructor arg) = [] \<and>
   transformer (constructor arg) = None \<and>
   returned (add (constructor None) n) \<and>
   emitted (state_of (add (constructor None) n)) = [[(nid n, n)]] \<and>
   transformer (state_of (add (constructor None) n)) = Some (Single n)"
proof -
  have 1: "nodes (constructor None) = []"
    by (simp add: constructor_def empty_selection_def)
  have 2: "set (keys (nodes (constructor (Some arr)))) = nid ` set arr"
    by (simp add: constructor_def keys_fold_map_set) (simp add: keys_def)
  have 3: "\<forall>kv \<in> set (nodes (constructor (Some arr))). fst kv = nid (snd kv) \<and> snd kv \<in> set arr"
    using entries_fold_map_set [of arr "[]"] by (auto simp add: constructor_def)
  have 4: "distinct (map nid arr) \<longrightarrow>
      nodes (constructor (Some arr)) = map (\<lambda>n. (nid n, n)) arr"
    using fold_map_set_distinct [of arr "[]"] by (simp add: constructor_def keys_def)
  have 5: "emitted (constructor arg) = [] \<and> transformer (constructor arg) = None"
    by (cases arg) (simp_all add: constructor_def empty_selection_def)
  have 6: "emitted (state_of (add (constructor None) n)) = [[(nid n, n)]]"
    by (simp add: emitted_add 1 has_def keys_def) (simp add: constructor_def empty_selection_def)
  have 7: "transformer (state_of (add (constructor None) n)) = Some (Single n)"
    by (simp add: transformer_add 1 has_def keys_def target_of_def first_value_def)
  show ?thesis
    using 1 2 3 4 5 6 7 returned_add [of "constructor None" n] by blast
qed

theorem constructor_seeds_silently_witness:
  "nodes (constructor (Some [demo_entity 1, demo_entity 2])) =
     [(1, demo_entity 1), (2, demo_entity 2)] \<and>
   emitted (constructor (Some [demo_entity 1, demo_entity 2])) = [] \<and>
   transformer (constructor (Some [demo_entity 1, demo_entity 2])) = None \<and>
   nodes (constructor None) = []"
  using constructor_seeds_silently
    [of "[demo_entity 1, demo_entity 2]" "Some [demo_entity 1, demo_entity 2]"]
  by (simp add: demo_entity_def)

subsection \<open>The marquee\<close>





lemma vector_copy [simp]: "\<lparr>x = x p, y = y p\<rparr> = (p :: Vector2d)"
  by simp











text \<open>
  Claim C3 says that after every marquee move the selection is exactly the set of
  \<open>entity\<close>-named nodes of the working layer whose client rectangle meets the current
  marquee rectangle, whatever the earlier moves selected. The program does not keep
  this. In the example scene the pointer goes down on the stage at \<open>(160, 90)\<close>. The
  move to \<open>(140, 160)\<close> selects entity 1 and creates the transformer. The move to
  \<open>(210, 160)\<close> leaves entity 1 and reaches entity 2: the loop starts with
  \<open>remove(entity 1)\<close>, which empties the map and throws in \<open>updateTransformer\<close>, so
  entity 2, which the marquee meets, is never added and the selection is left empty.
  This holds whatever further children (\<open>others\<close>: the transformer the first move
  added, for one) the layer has by the second move.
\<close>

theorem marquee_stops_at_emptying_remove:
  "map returned
     (marquee (constructor None) False \<lparr>x = 160, y = 90\<rparr>
        [(demo_scene, \<lparr>x = 140, y = 160\<rparr>),
         (demo_scene\<lparr>children := children demo_scene @ others\<rparr>, \<lparr>x = 210, y = 160\<rparr>)]) =
     [True, False] \<and>
   map selected_ids
     (marquee (constructor None) False \<lparr>x = 160, y = 90\<rparr>
        [(demo_scene, \<lparr>x = 140, y = 160\<rparr>),
         (demo_scene\<lparr>children := children demo_scene @ others\<rparr>, \<lparr>x = 210, y = 160\<rparr>)]) =
     [[1], []] \<and>
   is_hit demo_scene
     (selectBoxClientRect demo_scene (box_attrs (reverse \<lparr>x = 160, y = 90\<rparr> \<lparr>x = 210, y = 160\<rparr>)))
     (demo_entity 2)"
  by (simp add: selected_ids_def marquee_def mousemove_def mousedown_def updateDrag_def
      clear_def startDrag_def createSelectBox_def constructor_def empty_selection_def
      collision_step_def add_def remove_def notify_def createTransformer_def
      updateTransformer_cases isGroup_def has_def keys_def map_delete_def is_hit_def
      demo_scene_def demo_entity_def hasName_def haveIntersection_def
      box_attrs_def reverse_def swap_axis_def Let_def)

subsection \<open>Group move\<close>

lemma nid_move [simp]: "nid (move n d) = nid n"
  by (simp add: move_def)

lemma move_move:
  "move (move n (delta p q)) (delta r p) = move n (delta r q)"
  by (simp add: move_def delta_def)

lemma dragged_dragged:
  "dragged target p r (dragged target q p kv) = dragged target q r kv"
  by (simp add: dragged_def move_move)

lemma dragmove_frame:
  assumes "oldPosition s = Some q"
  shows "nodes (state_of (dragmove s (target\<lparr>position := p\<rparr>))) =
           map (dragged target q p) (nodes s) \<and>
         oldPosition (state_of (dragmove s (target\<lparr>position := p\<rparr>))) = Some p \<and>
         (transformer (state_of (dragmove s (target\<lparr>position := p\<rparr>))) = None) =
           (transformer s = None) \<and>
         returned (dragmove s (target\<lparr>position := p\<rparr>)) =
           (transformer s = None \<or> nodes s \<noteq> [])"
  using assms
  by (simp add: dragmove_def Let_def dragged_def delta_def transformer_updateTransformer
      returned_updateTransformer split: option.splits cong: map_cong)

lemma dragmoves_frames:
  "oldPosition s = Some q \<Longrightarrow> ps \<noteq> [] \<Longrightarrow>
   nodes (state_of (last (dragmoves s target ps))) =
     map (dragged target q (last ps)) (nodes s) \<and>
   (transformer s = None \<or> nodes s \<noteq> [] \<longrightarrow> list_all returned (dragmoves s target ps))"
proof (induction ps arbitrary: s q)
  case Nil
  then show ?case by simp
next
  case (Cons p ps)
  define s1 where "s1 = state_of (dragmove s (target\<lparr>position := p\<rparr>))"
  have f: "nodes s1 = map (dragged target q p) (nodes s)" "oldPosition s1 = Some p"
      "(transformer s1 = None) = (transformer s = None)"
      "returned (dragmove s (target\<lparr>position := p\<rparr>)) =
         (transformer s = None \<or> nodes s \<noteq> [])"
    using dragmove_frame [OF Cons.prems(1), where target = target and p = p]
    by (simp_all add: s1_def)
  show ?case
  proof (cases "ps = []")
    case True
    then show ?thesis using f by (simp add: s1_def)
  next
    case False
    have ih: "nodes (state_of (last (dragmoves s1 target ps))) =
        map (dragged target p (last ps)) (nodes s1) \<and>
        (transformer s1 = None \<or> nodes s1 \<noteq> [] \<longrightarrow> list_all returned (dragmoves s1 target ps))"
      using Cons.IH [OF f(2) False] .
    have ne: "dragmoves s1 target ps \<noteq> []"
      using False by (cases ps) simp_all
    have "nodes (state_of (last (dragmoves s1 target ps))) =
        map (dragged target q (last ps)) (nodes s)"
      using ih by (simp add: f(1) dragged_dragged comp_def)
    moreover have "transformer s = None \<or> nodes s \<noteq> [] \<longrightarrow>
        list_all returned (dragmoves s1 target ps)"
      using ih f(1) f(3) by auto
    ultimately show ?thesis
      using False ne f(4) by (simp add: s1_def [symmetric])
  qed
qed

text \<open>
  Claim C5. After a drag of \<open>target\<close> through the frame positions \<open>ps\<close> (at least
  one frame) the target's entry is the target at its last position while every other
  node of the selection has been moved by exactly the target's total displacement, the
  last position minus the position at \<open>dragstart\<close>, however many frames the drag took.
  No frame's handler throws when something is selected (or no transformer exists).
\<close>

theorem drag_moves_others_by_total_delta:
  assumes "ps \<noteq> []"
  shows "nodes (state_of (last (drag s target ps))) =
           map (\<lambda>kv. if nid (snd kv) = nid target
                     then (fst kv, target\<lparr>position := last ps\<rparr>)
                     else (fst kv,
                           move (snd kv)
                             \<lparr>x = x (last ps) - x (position target),
                              y = y (last ps) - y (position target)\<rparr>))
               (nodes s) \<and>
         (transformer s = None \<or> nodes s \<noteq> [] \<longrightarrow> list_all returned (drag s target ps))"
proof -
  have old: "oldPosition (dragstart s target) = Some (position target)"
    by (simp add: dragstart_def)
  have n: "nodes (dragstart s target) = nodes s" "transformer (dragstart s target) = transformer s"
    by (simp_all add: dragstart_def)
  have "dragged target (position target) (last ps) =
        (\<lambda>kv. if nid (snd kv) = nid target
               then (fst kv, target\<lparr>position := last ps\<rparr>)
               else (fst kv,
                     move (snd kv)
                       \<lparr>x = x (last ps) - x (position target),
                        y = y (last ps) - y (position target)\<rparr>))"
    by (rule ext) (simp add: dragged_def delta_def)
  then show ?thesis
    using dragmoves_frames [OF old assms, where target = target]
    by (simp add: drag_def n)
qed

theorem drag_moves_others_by_total_delta_witness:
  "nodes (state_of (last (drag (constructor (Some [demo_entity 1, demo_entity 2, demo_entity 3]))
                            (demo_entity 1) [\<lparr>x = 110, y = 100\<rparr>, \<lparr>x = 130, y = 140\<rparr>]))) =
     [(1, (demo_entity 1)\<lparr>position := \<lparr>x = 130, y = 140\<rparr>\<rparr>),
      (2, (demo_entity 2)\<lparr>position := \<lparr>x = 230, y = 140\<rparr>\<rparr>),
      (3, (demo_entity 3)\<lparr>position := \<lparr>x = 330, y = 140\<rparr>\<rparr>)] \<and>
   list_all returned (drag (constructor (Some [demo_entity 1, demo_entity 2, demo_entity 3]))
                        (demo_entity 1) [\<lparr>x = 110, y = 100\<rparr>, \<lparr>x = 130, y = 140\<rparr>])"
  using drag_moves_others_by_total_delta
    [of "[\<lparr>x = 110, y = 100\<rparr>, \<lparr>x = 130, y = 140\<rparr>]"
        "constructor (Some [demo_entity 1, demo_entity 2, demo_entity 3])" "demo_entity 1"]
  by (simp add: constructor_def empty_selection_def demo_entity_def move_def)

end
